theory Spec2Isabelle
  imports Complex_Main
begin

section \<open>Python values and exceptions\<close>

text \<open>
  The exceptions that the modelled code can raise. \<open>TypeError\<close> is what a call raises
  when it passes a keyword that the callee does not declare, \<open>AttributeError\<close> what a
  call of an undefined method raises, \<open>ValueError\<close> what \<open>float(text)\<close> raises on a text
  that is not a number.
\<close>

datatype exn = TypeError | AttributeError | ValueError

text \<open>A call of a method that returns a \<open>bool\<close> either returns it or raises.\<close>

datatype result = Returned bool | Raised exn

section \<open>The fee of a transaction (\<open>transactions/tx.py\<close>)\<close>

text \<open>
  \<open>int(x)\<close> on a float truncates towards zero.
\<close>

definition py_int :: "rat \<Rightarrow> int" where
  "py_int x = (if 0 \<le> x then \<lfloor>x\<rfloor> else \<lceil>x\<rceil>)"

text \<open>
  Floats are binary64. A float operation returns the exact result rounded to the nearest
  float; the rounding function \<open>rnd\<close> is not code of the repository and is a parameter
  of the model. \<open>int * float\<close> first converts the integer to a float.
\<close>

definition fmul :: "(rat \<Rightarrow> rat) \<Rightarrow> rat \<Rightarrow> rat \<Rightarrow> rat" where
  "fmul rnd a b = rnd (a * b)"

definition float_of_int :: "(rat \<Rightarrow> rat) \<Rightarrow> int \<Rightarrow> rat" where
  "float_of_int rnd n = rnd (of_int n)"

text \<open>
  \<open>tx_proto.Fee(gas_limit=..., amount=[Coin(denom="uallo", amount=str(...))])\<close>:
  the gas limit and the amount of the single coin.
\<close>

record fee =
  fee_gas_limit :: int
  fee_amount :: int

text \<open>
  \<open>Transaction.__init__\<close> starts with a zero fee.
\<close>

definition initial_fee :: fee where
  "initial_fee = \<lparr>fee_gas_limit = 0, fee_amount = 0\<rparr>"

text \<open>
  \<open>Transaction.set_fee(self, gas_limit, gas_price)\<close>:
  \<^verbatim>\<open>gas_limit=int(gas_limit * 1.5)\<close> and
  \<^verbatim>\<open>amount=str(int(gas_limit * 1.5 * gas_price))\<close>.
  The factor is the literal \<open>1.5\<close>; the method has no adjustment parameter.
\<close>

definition set_fee :: "(rat \<Rightarrow> rat) \<Rightarrow> int \<Rightarrow> rat \<Rightarrow> fee" where
  "set_fee rnd gas_limit gas_price =
     \<lparr>fee_gas_limit = py_int (fmul rnd (float_of_int rnd gas_limit) (3 / 2)),
      fee_amount = py_int (fmul rnd (fmul rnd (float_of_int rnd gas_limit) (3 / 2)) gas_price)\<rparr>"

text \<open>The parameters that \<open>set_fee\<close> declares after \<open>self\<close>.\<close>

definition set_fee_params :: "string list" where
  "set_fee_params = [''gas_limit'', ''gas_price'']"

text \<open>
  Python binds the keywords of a call to the declared parameters before the body runs;
  a keyword that is not declared raises \<open>TypeError\<close> (the modelled methods take no
  \<open>**kwargs\<close>).
\<close>

definition bind_keywords :: "string list \<Rightarrow> string list \<Rightarrow> exn option" where
  "bind_keywords params keywords =
     (if list_all (\<lambda>k. k \<in> set params) keywords then None else Some TypeError)"

section \<open>The wallet and its two submissions (\<open>wallet/wallet.py\<close>)\<close>

text \<open>
  The mutable fields of \<open>Wallet\<close>. The class defaults are \<open>account_number = -1\<close>,
  \<open>sequence = -1\<close>, \<open>balance = 0\<close> and \<open>initialized = False\<close>.
\<close>

record wallet =
  account_number :: int
  sequence :: int
  balance :: int
  gas_adjustment :: rat
  initialized :: bool

text \<open>
  What the API node answers during one submission. \<open>simulate_tx env i\<close> is the result
  of the \<open>i\<close>-th call of \<open>APINode.simulate_tx\<close> (\<open>-1\<close> when the call failed),
  \<open>gas_price env\<close> the cached gas price, and \<open>broadcast_tx env i\<close> what the \<open>i\<close>-th
  call of \<open>APINode.broadcast_tx\<close> would return (the transaction hash, or the empty
  string when the call fails). No path of the two submissions gets as far as asking
  for the latter, as the definitions below show.
\<close>

record chain =
  simulate_tx :: "nat \<Rightarrow> int"
  gas_price :: rat
  broadcast_tx :: "nat \<Rightarrow> string"

text \<open>
  What one call of \<open>register_for_topic\<close> or \<open>submit_inference\<close> did: how it ended,
  the wallet it left, how many simulate and broadcast requests it sent, and whether it
  got past the broadcast loop with a transaction hash (the log line
  "Transaction broadcasted").
\<close>

record tx_run =
  outcome :: result
  wallet_after :: wallet
  simulate_calls :: nat
  broadcast_calls :: nat
  broadcasted :: bool

text \<open>
  The gas estimation loop, the same in both submissions:
  \<^verbatim>\<open>
  retries = 3
  gas_limit = -1
  while retries > 0 and gas_limit == -1:
      gas_limit = self.api_node.simulate_tx(tx.get_tx_bytes())
      if gas_limit == -1:
          retries -= 1
          time.sleep(1)
  \<close>
  \<open>estimate_gas retries sim i\<close> runs it with \<open>retries\<close> retries left, the next
  simulate call being the \<open>i\<close>-th; it returns \<open>gas_limit\<close> and the number of calls made.
\<close>

fun estimate_gas :: "nat \<Rightarrow> (nat \<Rightarrow> int) \<Rightarrow> nat \<Rightarrow> int \<times> nat" where
  "estimate_gas 0 sim i = (-1, i)"
| "estimate_gas (Suc retries) sim i =
     (let gas_limit = sim i
      in if gas_limit = -1 then estimate_gas retries sim (Suc i) else (gas_limit, Suc i))"

text \<open>
  The keywords of the call
  \<^verbatim>\<open>tx.set_fee(gas_limit=gas_limit, gas_price=self.api_node.get_gas_price(), gas_adjustment=self.gas_adjustment)\<close>
  that both submissions make after a successful gas estimation.
\<close>

definition set_fee_call_keywords :: "string list" where
  "set_fee_call_keywords = [''gas_limit'', ''gas_price'', ''gas_adjustment'']"

text \<open>
  \<open>Wallet.register_for_topic\<close>, as far as a call can get:
  \<^verbatim>\<open>
  ... the gas estimation loop ...
  if gas_limit == -1:
      return False
  tx.set_fee(gas_limit=gas_limit, gas_price=..., gas_adjustment=self.gas_adjustment)
  self.logger.debug(f"Estimated fee: {tx.get_fee()} uALLO")
  \<close>
  The call of \<open>set_fee\<close> binds its keywords first and raises when one is not
  declared. Had it returned, the next statement calls \<open>tx.get_fee()\<close>:
  \<open>Transaction\<close> (\<open>tx.py\<close>) defines \<open>__init__\<close>, \<open>set_tx_body\<close>, \<open>set_fee\<close> and
  \<open>get_tx_bytes\<close> and the attributes \<open>wallet\<close>, \<open>fee\<close>, \<open>signer_info\<close> and \<open>tx_body\<close>,
  so that call raises \<open>AttributeError\<close>. The rest of the method (the affordability
  check, the broadcast loop, the wait for the transaction, the debit of the balance
  and the increment of the sequence) comes after these two statements. Nothing in the
  method catches an exception. The request and the timeout height only enter the
  transaction body, whose bytes are what the API node is asked about; its answers are
  in \<open>env\<close>.
\<close>

definition register_for_topic :: "chain \<Rightarrow> wallet \<Rightarrow> tx_run" where
  "register_for_topic env w =
     (case estimate_gas 3 (simulate_tx env) 0 of
        (gas_limit, n) \<Rightarrow>
          if gas_limit = -1 then
            \<lparr>outcome = Returned False, wallet_after = w, simulate_calls = n,
             broadcast_calls = 0, broadcasted = False\<rparr>
          else
            (case bind_keywords set_fee_params set_fee_call_keywords of
               Some e \<Rightarrow>
                 \<lparr>outcome = Raised e, wallet_after = w, simulate_calls = n,
                  broadcast_calls = 0, broadcasted = False\<rparr>
             | None \<Rightarrow>
                 \<lparr>outcome = Raised AttributeError, wallet_after = w, simulate_calls = n,
                  broadcast_calls = 0, broadcasted = False\<rparr>))"

text \<open>
  \<open>Wallet.submit_inference\<close>: the same steps, with \<open>return True\<close> when no gas estimate
  was obtained.
\<close>

definition submit_inference :: "chain \<Rightarrow> wallet \<Rightarrow> tx_run" where
  "submit_inference env w =
     (case estimate_gas 3 (simulate_tx env) 0 of
        (gas_limit, n) \<Rightarrow>
          if gas_limit = -1 then
            \<lparr>outcome = Returned True, wallet_after = w, simulate_calls = n,
             broadcast_calls = 0, broadcasted = False\<rparr>
          else
            (case bind_keywords set_fee_params set_fee_call_keywords of
               Some e \<Rightarrow>
                 \<lparr>outcome = Raised e, wallet_after = w, simulate_calls = n,
                  broadcast_calls = 0, broadcasted = False\<rparr>
             | None \<Rightarrow>
                 \<lparr>outcome = Raised AttributeError, wallet_after = w, simulate_calls = n,
                  broadcast_calls = 0, broadcasted = False\<rparr>))"

section \<open>Creating the wallet and starting the workers (\<open>wallet.py\<close>, \<open>api_node.py\<close>, \<open>main.py\<close>)\<close>

text \<open>
  The two requests of \<open>APINode.fetch_wallet_details\<close>. The first one either fails
  (transport error, status 403, 429, 500 or 503, a body that is not JSON, an error
  reply) or carries the account number and the sequence, which the chain holds as
  unsigned 64-bit numbers. The second one either fails or carries the balance.
  (A first reply with neither \<open>info\<close> nor \<open>code\<close> raises \<open>KeyError\<close> in the error
  branch and ends the process at once; that reply is not modelled.)
\<close>

datatype account_reply = AccountUnavailable | AccountInfo nat nat

datatype balance_reply = BalanceUnavailable | Balance int

text \<open>
  \<open>fetch_wallet_details\<close> returns at the first failure and leaves the fields it has
  not reached as they were:
  \<^verbatim>\<open>
  wallet.account_number = int(resp["info"]["account_number"])
  wallet.sequence = int(resp["info"]["sequence"])
  ... the balance request, with its early returns ...
  wallet.balance = int(resp["balance"]["amount"])
  \<close>
\<close>

definition fetch_wallet_details :: "account_reply \<Rightarrow> balance_reply \<Rightarrow> wallet \<Rightarrow> wallet" where
  "fetch_wallet_details acc bal w =
     (case acc of
        AccountUnavailable \<Rightarrow> w
      | AccountInfo n s \<Rightarrow>
          (let w' = w\<lparr>account_number := int n, sequence := int s\<rparr>
           in case bal of
                BalanceUnavailable \<Rightarrow> w'
              | Balance amount \<Rightarrow> w'\<lparr>balance := amount\<rparr>))"

text \<open>
  \<open>Wallet.__init__\<close> after the key derivation:
  \<^verbatim>\<open>
  self.api_node.fetch_wallet_details(self)
  if self.account_number == -1 or self.sequence == -1 or self.balance == 0:
      return
  self.initialized = True
  \<close>
\<close>

definition Wallet_init :: "rat \<Rightarrow> account_reply \<Rightarrow> balance_reply \<Rightarrow> wallet" where
  "Wallet_init adjustment acc bal =
     (let w = fetch_wallet_details acc bal
                \<lparr>account_number = -1, sequence = -1, balance = 0,
                 gas_adjustment = adjustment, initialized = False\<rparr>
      in if account_number w = -1 \<or> sequence w = -1 \<or> balance w = 0 then w
         else w\<lparr>initialized := True\<rparr>)"

definition is_initialized :: "wallet \<Rightarrow> bool" where
  "is_initialized w = initialized w"

text \<open>
  \<open>main\<close> from the wallet on. A topic of the configuration may lack its
  \<open>topic_id\<close> or its \<open>inference_url\<close>; such a topic is skipped. The result is the exit
  code, if \<open>main\<close> called \<open>exit\<close>, and the topic ids of the worker threads started.
  \<^verbatim>\<open>
  if not wallet.is_initialized():
      exit(-1)
  if "topics" not in CONFIG or len(CONFIG["topics"]) == 0:
      exit(-1)
  for topic_params in CONFIG["topics"]:
      if "topic_id" not in topic_params: continue
      if "inference_url" not in topic_params: continue
      ...
      thread.start()
  \<close>
\<close>

definition main_with_wallet :: "wallet \<Rightarrow> (int option \<times> string option) list \<Rightarrow> int option \<times> int list" where
  "main_with_wallet w topics =
     (if \<not> is_initialized w then (Some (-1), [])
      else if length topics = 0 then (Some (-1), [])
      else (None, List.map_filter
                    (\<lambda>topic_params.
                       case topic_params of
                         (None, _) \<Rightarrow> None
                       | (Some topic_id, None) \<Rightarrow> None
                       | (Some topic_id, Some inference_url) \<Rightarrow> Some topic_id)
                    topics))"

section \<open>The worker of a topic (\<open>worker/worker.py\<close>)\<close>

text \<open>
  The answer of the inference endpoint to one GET: a transport error
  (\<open>httpx.RequestError\<close>), or a response with its status code and, when
  \<open>float(req.text)\<close> succeeds, the number in its body. The number is only passed on to
  the submission.
\<close>

datatype http_result = RequestError | Response nat "rat option"

text \<open>
  \<open>Worker.fetch_inference\<close>:
  \<^verbatim>\<open>
  try:
      req = self.inference_client.get(url=self.params.get_inference_url())
  except httpx.RequestError:
      return None
  if req.status_code in (403, 429, 500, 503):
      return None
  return float(req.text)
  \<close>
\<close>

definition fetch_inference :: "http_result \<Rightarrow> exn + rat option" where
  "fetch_inference req =
     (case req of
        RequestError \<Rightarrow> Inr None
      | Response status_code text \<Rightarrow>
          if status_code \<in> {403, 429, 500, 503} then Inr None
          else (case text of None \<Rightarrow> Inl ValueError | Some v \<Rightarrow> Inr (Some v)))"

text \<open>
  What a worker does that can be observed from outside, in order.
\<close>

datatype event =
    IsStopSet bool
  | IsTopicActive
  | GetTopicNonce
  | FetchInference
  | RetrySleep
  | SubmitInference rat int
  | Sleep
  | CloseClient

text \<open>The requests among the events.\<close>

fun is_request :: "event \<Rightarrow> bool" where
  "is_request IsTopicActive = True"
| "is_request GetTopicNonce = True"
| "is_request FetchInference = True"
| "is_request (SubmitInference v n) = True"
| "is_request e = False"

fun is_submission :: "event \<Rightarrow> bool" where
  "is_submission (SubmitInference v n) = True"
| "is_submission e = False"

text \<open>
  The fetch loop of \<open>Worker.run\<close>:
  \<^verbatim>\<open>
  retries = self.params.get_inference_fetch_retries()
  inference_value = None
  while retries > 0 and inference_value is None:
      inference_value = self.fetch_inference()
      if inference_value is None:
          retries -= 1
          time.sleep(self.params.get_inference_fetch_retry_freq())
  \<close>
  \<open>http i\<close> is the answer to the \<open>i\<close>-th GET. An exception of \<open>fetch_inference\<close> leaves
  the loop.
\<close>

fun fetch_retries :: "nat \<Rightarrow> (nat \<Rightarrow> http_result) \<Rightarrow> nat \<Rightarrow> (exn + rat option) \<times> event list" where
  "fetch_retries 0 http i = (Inr None, [])"
| "fetch_retries (Suc retries) http i =
     (case fetch_inference (http i) of
        Inl e \<Rightarrow> (Inl e, [FetchInference])
      | Inr (Some v) \<Rightarrow> (Inr (Some v), [FetchInference])
      | Inr None \<Rightarrow>
          (case fetch_retries retries http (Suc i) of
             (res, evs) \<Rightarrow> (res, FetchInference # RetrySleep # evs)))"

text \<open>
  What the outside answers during one iteration of the polling loop: whether the topic
  is active, the unfulfilled nonce of the topic, the answers of the inference endpoint,
  and how the call of \<open>wallet.submit_inference\<close> ends.
\<close>

record round =
  topic_active :: bool
  topic_nonce :: int
  inference_http :: "nat \<Rightarrow> http_result"
  submit_result :: result

text \<open>
  The fields of \<open>Worker\<close> that the loop changes. \<open>stop_event\<close> records that the worker
  itself has called \<open>self.stop()\<close>.
\<close>

record worker =
  latest_used_nonce :: int
  stop_event :: bool

text \<open>
  The body of the polling loop (lines 108 to 157), for a worker configured with
  \<open>inference_fetch_retries = k\<close>. It returns the exception that left the body, if any,
  the worker, and the events. \<open>continue\<close> skips the sleep at the end of the body; an
  exception skips the rest of the body.
\<close>

definition loop_body :: "nat \<Rightarrow> round \<Rightarrow> worker \<Rightarrow> exn option \<times> worker \<times> event list" where
  "loop_body k rd s =
     (if \<not> topic_active rd then (None, s\<lparr>stop_event := True\<rparr>, [IsTopicActive])
      else
        (let inference_nonce = topic_nonce rd
         in if inference_nonce > 0 \<and> inference_nonce > latest_used_nonce s then
              (case fetch_retries k (inference_http rd) 0 of
                 (Inl e, evs) \<Rightarrow> (Some e, s, [IsTopicActive, GetTopicNonce] @ evs)
               | (Inr None, evs) \<Rightarrow> (None, s, [IsTopicActive, GetTopicNonce] @ evs @ [Sleep])
               | (Inr (Some inference_value), evs) \<Rightarrow>
                   (case submit_result rd of
                      Raised e \<Rightarrow>
                        (Some e, s, [IsTopicActive, GetTopicNonce] @ evs
                                      @ [SubmitInference inference_value inference_nonce])
                    | Returned b \<Rightarrow>
                        (None, s\<lparr>latest_used_nonce := inference_nonce\<rparr>,
                         [IsTopicActive, GetTopicNonce] @ evs
                           @ [SubmitInference inference_value inference_nonce, Sleep])))
            else (None, s, [IsTopicActive, GetTopicNonce, Sleep])))"

text \<open>
  The polling loop with its handlers:
  \<^verbatim>\<open>
  try:
      while not self.stop_event.is_set():
          ... the body ...
  except Exception as e:
      self.params.get_logger().critical(f"Error occurred: {e}")
  finally:
      self.inference_client.close()
  \<close>
  The event is set by the worker itself or by the main thread. \<open>stop_requested j\<close> says
  whether the main thread has called \<open>stop()\<close> by the time the loop condition is
  evaluated for the \<open>j\<close>-th time, \<open>rounds j\<close> is what the outside answers during the
  \<open>j\<close>-th iteration. The loop runs until it is stopped, so the model counts its
  iterations down from \<open>fuel\<close>; \<open>None\<close> says that the worker is still running after
  \<open>fuel\<close> iterations. A finished run gives the exception that ended it, if any, the
  worker and the events.
\<close>

fun run_loop :: "nat \<Rightarrow> nat \<Rightarrow> (nat \<Rightarrow> bool) \<Rightarrow> (nat \<Rightarrow> round) \<Rightarrow> nat \<Rightarrow> worker
                   \<Rightarrow> (exn option \<times> worker \<times> event list) option" where
  "run_loop 0 k stop_requested rounds j s =
     (if stop_event s \<or> stop_requested j then Some (None, s, [IsStopSet True, CloseClient])
      else None)"
| "run_loop (Suc fuel) k stop_requested rounds j s =
     (if stop_event s \<or> stop_requested j then Some (None, s, [IsStopSet True, CloseClient])
      else
        (case loop_body k (rounds j) s of
           (Some e, s', evs) \<Rightarrow> Some (Some e, s', IsStopSet False # evs @ [CloseClient])
         | (None, s', evs) \<Rightarrow>
             (case run_loop fuel k stop_requested rounds (Suc j) s' of
                None \<Rightarrow> None
              | Some (x, s'', evs') \<Rightarrow> Some (x, s'', IsStopSet False # evs @ evs'))))"

text \<open>
  The answers that \<open>fetch_inference\<close> turns into \<open>None\<close>: a transport error, or one of
  the four status codes it tests for.
\<close>

fun unavailable :: "http_result \<Rightarrow> bool" where
  "unavailable RequestError = True"
| "unavailable (Response status_code text) = (status_code \<in> {403, 429, 500, 503})"

text \<open>
  In a list of events, every sleep of the polling loop is followed at once by an
  evaluation of the loop condition.
\<close>

fun is_stop_check :: "event \<Rightarrow> bool" where
  "is_stop_check (IsStopSet b) = True"
| "is_stop_check e = False"

fun sleep_then_check :: "event list \<Rightarrow> bool" where
  "sleep_then_check [] = True"
| "sleep_then_check [e] = (e \<noteq> Sleep)"
| "sleep_then_check (e # e' # es) =
     ((if e = Sleep then is_stop_check e' else True) \<and> sleep_then_check (e' # es))"

section \<open>Concrete nodes, wallets and rounds\<close>

definition funded_wallet :: wallet where
  "funded_wallet = \<lparr>account_number = 7, sequence = 3, balance = 200000,
                     gas_adjustment = 3 / 2, initialized = True\<rparr>"

definition poor_wallet :: wallet where
  "poor_wallet = \<lparr>account_number = 7, sequence = 3, balance = 5,
                   gas_adjustment = 3 / 2, initialized = True\<rparr>"

text \<open>A node that estimates 100000 gas and would accept the broadcast.\<close>

definition node_ok :: chain where
  "node_ok = \<lparr>simulate_tx = (\<lambda>i. 100000), gas_price = 1 / 10,
               broadcast_tx = (\<lambda>i. ''A1B2'')\<rparr>"

text \<open>A node that cannot be reached.\<close>

definition node_unreachable :: chain where
  "node_unreachable = \<lparr>simulate_tx = (\<lambda>i. -1), gas_price = 1 / 10,
                        broadcast_tx = (\<lambda>i. '''')\<rparr>"

text \<open>A worker that has acted on nonce 100.\<close>

definition worker_at_100 :: worker where
  "worker_at_100 = \<lparr>latest_used_nonce = 100, stop_event = False\<rparr>"

text \<open>
  Rounds on an active topic with the given nonce: the endpoint answers 200 with the
  number 5/2; the endpoint answers 200 with a body that is not a number; the endpoint
  answers 404 with the number 5/2; the endpoint answers 503.
\<close>

definition round_value :: "int \<Rightarrow> result \<Rightarrow> round" where
  "round_value n res = \<lparr>topic_active = True, topic_nonce = n,
                         inference_http = (\<lambda>i. Response 200 (Some (5 / 2))),
                         submit_result = res\<rparr>"

definition round_garbage :: "int \<Rightarrow> round" where
  "round_garbage n = \<lparr>topic_active = True, topic_nonce = n,
                       inference_http = (\<lambda>i. Response 200 None),
                       submit_result = Returned True\<rparr>"

definition round_not_found :: "int \<Rightarrow> round" where
  "round_not_found n = \<lparr>topic_active = True, topic_nonce = n,
                         inference_http = (\<lambda>i. Response 404 (Some (5 / 2))),
                         submit_result = Returned True\<rparr>"

definition round_unavailable :: "int \<Rightarrow> round" where
  "round_unavailable n = \<lparr>topic_active = True, topic_nonce = n,
                           inference_http = (\<lambda>i. Response 503 None),
                           submit_result = Returned True\<rparr>"

section \<open>Properties of the fee\<close>

lemma py_int_nonneg: "0 \<le> x \<Longrightarrow> 0 \<le> py_int x"
  by (simp add: py_int_def)

lemma py_int_floor: "0 \<le> x \<Longrightarrow> py_int x = \<lfloor>x\<rfloor>"
  by (simp add: py_int_def)

lemma floor_three_halves: "\<lfloor>of_int g * (3 / 2 :: rat)\<rfloor> = (3 * g) div 2"
proof -
  have "of_int g * (3 / 2 :: rat) = of_int (3 * g) / of_int 2" by simp
  then show ?thesis by (simp only: floor_divide_of_int_eq)
qed

text \<open>
  Claim C1, as amended. \<open>Transaction.set_fee\<close> multiplies the estimated gas by the
  literal 1.5 and truncates: for a non-negative estimate and a non-negative gas price
  the gas limit and the fee amount are never negative, and wherever the conversion of
  the estimate and its product with 1.5 are exact in floats, the gas limit is
  \<open>floor(estimated_gas * 1.5)\<close>, that is \<open>3 * estimated_gas div 2\<close>, and the amount is
  the product of the unrounded adjusted gas with the gas price, rounded down. An
  estimate of 100000 gives the gas limit 150000. The only assumption on the rounding of
  floats is that it keeps the sign.
\<close>

theorem set_fee_truncates:
  assumes sign: "\<And>x. 0 \<le> x \<Longrightarrow> 0 \<le> rnd x"
    and g: "0 \<le> g" and p: "0 \<le> p"
  shows "0 \<le> fee_gas_limit (set_fee rnd g p) \<and> 0 \<le> fee_amount (set_fee rnd g p)
       \<and> (rnd (of_int g) = of_int g \<and> rnd (of_int g * (3 / 2)) = of_int g * (3 / 2) \<longrightarrow>
            fee_gas_limit (set_fee rnd g p) = \<lfloor>of_int g * (3 / 2 :: rat)\<rfloor>
          \<and> fee_gas_limit (set_fee rnd g p) = (3 * g) div 2
          \<and> fee_amount (set_fee rnd g p) = \<lfloor>rnd (of_int g * (3 / 2) * p)\<rfloor>
          \<and> (g = 100000 \<longrightarrow> fee_gas_limit (set_fee rnd g p) = 150000))"
proof -
  let ?a = "of_int g * (3 / 2 :: rat)"
  have g0: "0 \<le> float_of_int rnd g"
    unfolding float_of_int_def using g by (intro sign) simp
  have a0: "0 \<le> fmul rnd (float_of_int rnd g) (3 / 2)"
    unfolding fmul_def using g0 by (intro sign) simp
  have "0 \<le> rnd (fmul rnd (float_of_int rnd g) (3 / 2) * p)"
    by (rule sign) (rule mult_nonneg_nonneg [OF a0 p])
  then have b0: "0 \<le> fmul rnd (fmul rnd (float_of_int rnd g) (3 / 2)) p"
    by (simp add: fmul_def [of rnd _ p])
  have nonneg: "0 \<le> fee_gas_limit (set_fee rnd g p) \<and> 0 \<le> fee_amount (set_fee rnd g p)"
    using a0 b0 by (simp add: set_fee_def py_int_nonneg)
  have exact: "fee_gas_limit (set_fee rnd g p) = \<lfloor>?a\<rfloor>
          \<and> fee_gas_limit (set_fee rnd g p) = (3 * g) div 2
          \<and> fee_amount (set_fee rnd g p) = \<lfloor>rnd (?a * p)\<rfloor>
          \<and> (g = 100000 \<longrightarrow> fee_gas_limit (set_fee rnd g p) = 150000)"
    if exact_g: "rnd (of_int g) = of_int g" and exact_adjusted: "rnd ?a = ?a"
  proof -
    have e1: "float_of_int rnd g = of_int g"
      unfolding float_of_int_def by (rule exact_g)
    have e2: "fmul rnd (of_int g) (3 / 2) = ?a"
      unfolding fmul_def by (rule exact_adjusted)
    have ge: "0 \<le> ?a" using g by simp
    have gl: "fee_gas_limit (set_fee rnd g p) = \<lfloor>?a\<rfloor>"
      unfolding set_fee_def e1 e2 using ge by (simp add: py_int_floor)
    have "0 \<le> rnd (?a * p)"
      by (rule sign) (rule mult_nonneg_nonneg [OF ge p])
    then have am: "fee_amount (set_fee rnd g p) = \<lfloor>rnd (?a * p)\<rfloor>"
      unfolding set_fee_def e1 e2 by (simp add: fmul_def py_int_floor)
    have d: "fee_gas_limit (set_fee rnd g p) = (3 * g) div 2"
      using gl by (simp only: floor_three_halves)
    have ex: "g = 100000 \<longrightarrow> fee_gas_limit (set_fee rnd g p) = 150000"
    proof
      assume "g = 100000"
      with d show "fee_gas_limit (set_fee rnd g p) = 150000" by simp
    qed
    from gl d am ex show ?thesis by blast
  qed
  from nonneg exact show ?thesis by blast
qed

theorem set_fee_truncates_witness:
  "0 \<le> fee_gas_limit (set_fee (\<lambda>x. x) 100000 (1 / 10))
   \<and> 0 \<le> fee_amount (set_fee (\<lambda>x. x) 100000 (1 / 10))
   \<and> fee_gas_limit (set_fee (\<lambda>x. x) 100000 (1 / 10)) = 150000
   \<and> fee_amount (set_fee (\<lambda>x. x) 100000 (1 / 10)) = 15000"
  using set_fee_truncates [of "\<lambda>x. x" 100000 "1 / 10"] by simp

text \<open>
  Claim C1 as stated fails for an estimate of 1 and a gas price of 2 (all values exact
  in floats): the gas limit is 1, not \<open>ceil(1 * 1.5) = 2\<close>, and the amount is 3, not the
  gas limit times the price.
\<close>

theorem set_fee_ceiling_counterexample:
  "fee_gas_limit (set_fee (\<lambda>x. x) 1 2) = 1 \<and> \<lceil>of_int 1 * (3 / 2 :: rat)\<rceil> = 2
   \<and> fee_amount (set_fee (\<lambda>x. x) 1 2) = 3
   \<and> \<lfloor>of_int (fee_gas_limit (set_fee (\<lambda>x. x) 1 2)) * (2 :: rat)\<rfloor> = 2"
  by code_simp

section \<open>Properties of the submissions\<close>

lemma bind_set_fee_call: "bind_keywords set_fee_params set_fee_call_keywords = Some TypeError"
  by (simp add: bind_keywords_def set_fee_params_def set_fee_call_keywords_def)

lemma estimate_gas_all_fail:
  "(\<And>j. j < retries \<Longrightarrow> sim (i + j) = -1) \<Longrightarrow> estimate_gas retries sim i = (-1, i + retries)"
proof (induction retries arbitrary: i)
  case 0
  show ?case by simp
next
  case (Suc retries)
  have a: "sim i = -1" using Suc.prems [of 0] by simp
  have "estimate_gas retries sim (Suc i) = (-1, Suc i + retries)"
  proof (rule Suc.IH)
    fix j assume "j < retries"
    then show "sim (Suc i + j) = -1" using Suc.prems [of "Suc j"] by simp
  qed
  with a show ?case by simp
qed



lemma submit_inference_run:
  "submit_inference env w =
     \<lparr>outcome = (if fst (estimate_gas 3 (simulate_tx env) 0) = -1 then Returned True
                  else Raised TypeError),
      wallet_after = w, simulate_calls = snd (estimate_gas 3 (simulate_tx env) 0),
      broadcast_calls = 0, broadcasted = False\<rparr>"
  by (cases "estimate_gas 3 (simulate_tx env) 0")
     (simp add: submit_inference_def bind_set_fee_call)



text \<open>
  Claim C4. A call whose fee would exceed the balance is meant to return \<open>False\<close> at
  the affordability check. The call
  \<open>tx.set_fee(gas_limit=..., gas_price=..., gas_adjustment=...)\<close> comes first, and
  \<open>set_fee\<close> declares no parameter \<open>gas_adjustment\<close>: with a balance of 5 and an
  estimate of 100000 gas at a price of 0.1 (a fee of 15000), both submissions raise
  \<open>TypeError\<close> instead of returning. The wallet is unchanged and nothing is broadcast.
\<close>

theorem set_fee_call_raises:
  "register_for_topic node_ok poor_wallet =
     \<lparr>outcome = Raised TypeError, wallet_after = poor_wallet, simulate_calls = 1,
      broadcast_calls = 0, broadcasted = False\<rparr>
   \<and> submit_inference node_ok poor_wallet =
     \<lparr>outcome = Raised TypeError, wallet_after = poor_wallet, simulate_calls = 1,
      broadcast_calls = 0, broadcasted = False\<rparr>"
  by (simp add: register_for_topic_def submit_inference_def bind_set_fee_call node_ok_def numeral_3_eq_3)

text \<open>
  Claim C5. When the three simulate calls fail, \<open>register_for_topic\<close> returns \<open>False\<close>
  and \<open>submit_inference\<close> returns \<open>True\<close>; both leave the wallet as it was, after
  exactly three simulate requests and no broadcast request.
\<close>

theorem unestimable_leaves_wallet:
  assumes "\<forall>i<3. simulate_tx env i = -1"
  shows "register_for_topic env w =
           \<lparr>outcome = Returned False, wallet_after = w, simulate_calls = 3,
            broadcast_calls = 0, broadcasted = False\<rparr>
       \<and> submit_inference env w =
           \<lparr>outcome = Returned True, wallet_after = w, simulate_calls = 3,
            broadcast_calls = 0, broadcasted = False\<rparr>"
proof -
  have "estimate_gas 3 (simulate_tx env) 0 = (-1, 0 + 3)"
    by (rule estimate_gas_all_fail) (simp add: assms)
  then show ?thesis
    by (simp add: register_for_topic_def submit_inference_def)
qed

theorem unestimable_leaves_wallet_witness:
  "register_for_topic node_unreachable funded_wallet =
           \<lparr>outcome = Returned False, wallet_after = funded_wallet, simulate_calls = 3,
            broadcast_calls = 0, broadcasted = False\<rparr>
       \<and> submit_inference node_unreachable funded_wallet =
           \<lparr>outcome = Returned True, wallet_after = funded_wallet, simulate_calls = 3,
            broadcast_calls = 0, broadcasted = False\<rparr>"
  by (rule unestimable_leaves_wallet) (simp add: node_unreachable_def)

section \<open>Properties of the worker\<close>

lemma fetch_inference_unavailable: "unavailable r \<Longrightarrow> fetch_inference r = Inr None"
  by (cases r) (auto simp: fetch_inference_def)

lemma fetch_retries_unavailable:
  "(\<And>j. j < k \<Longrightarrow> unavailable (http (i + j))) \<Longrightarrow>
     fetch_retries k http i = (Inr None, concat (replicate k [FetchInference, RetrySleep]))"
proof (induction k arbitrary: i)
  case 0
  show ?case by simp
next
  case (Suc k)
  have a: "fetch_inference (http i) = Inr None"
    using Suc.prems [of 0] by (simp add: fetch_inference_unavailable)
  have "fetch_retries k http (Suc i) = (Inr None, concat (replicate k [FetchInference, RetrySleep]))"
  proof (rule Suc.IH)
    fix j assume "j < k"
    then show "unavailable (http (Suc i + j))" using Suc.prems [of "Suc j"] by simp
  qed
  with a show ?case by simp
qed

text \<open>
  Claim C6. A worker that has acted on nonce 100, with a configured retry count of 5
  and an endpoint that answers 2.5. While the topic's nonce is 100 the iteration
  submits nothing and keeps the last used nonce. With the nonce at 101 it makes one
  submission; on a node that cannot be reached \<open>submit_inference\<close> returns and 101 is
  recorded. On a node that estimates the gas, \<open>submit_inference\<close> raises \<open>TypeError\<close>
  at its call of \<open>set_fee\<close>: the assignment of the nonce is skipped, the last used
  nonce is still 100, and the handler of the loop ends the worker.
\<close>

theorem raising_submission_loses_nonce:
  "loop_body 5 (round_value 100 (outcome (submit_inference node_ok funded_wallet))) worker_at_100
     = (None, worker_at_100, [IsTopicActive, GetTopicNonce, Sleep])
   \<and> loop_body 5 (round_value 101 (outcome (submit_inference node_unreachable funded_wallet)))
        worker_at_100
     = (None, worker_at_100\<lparr>latest_used_nonce := 101\<rparr>,
        [IsTopicActive, GetTopicNonce, FetchInference, SubmitInference (5 / 2) 101, Sleep])
   \<and> outcome (submit_inference node_ok funded_wallet) = Raised TypeError
   \<and> loop_body 5 (round_value 101 (outcome (submit_inference node_ok funded_wallet))) worker_at_100
     = (Some TypeError, worker_at_100,
        [IsTopicActive, GetTopicNonce, FetchInference, SubmitInference (5 / 2) 101])
   \<and> latest_used_nonce worker_at_100 = 100
   \<and> run_loop 3 5 (\<lambda>j. False)
        (\<lambda>j. round_value 101 (outcome (submit_inference node_ok funded_wallet))) 0 worker_at_100
     = Some (Some TypeError, worker_at_100,
             [IsStopSet False, IsTopicActive, GetTopicNonce, FetchInference,
              SubmitInference (5 / 2) 101, CloseClient])"
proof -
  have ok: "outcome (submit_inference node_ok funded_wallet) = Raised TypeError"
    by (simp add: submit_inference_run node_ok_def numeral_3_eq_3)
  have un: "outcome (submit_inference node_unreachable funded_wallet) = Returned True"
    by (simp add: submit_inference_run node_unreachable_def numeral_3_eq_3)
  show ?thesis
    unfolding ok un
    by (simp add: loop_body_def round_value_def worker_at_100_def fetch_inference_def
          eval_nat_numeral)
qed

lemma fetch_retries_no_sleep:
  "fetch_retries k http i = (res, evs) \<Longrightarrow> Sleep \<notin> set evs"
proof (induction k arbitrary: i res evs)
  case 0
  then show ?case by simp
next
  case (Suc k)
  show ?case
  proof (cases "fetch_inference (http i)")
    case (Inl e)
    with Suc.prems show ?thesis by auto
  next
    case (Inr v)
    show ?thesis
    proof (cases v)
      case (Some x)
      with Inr Suc.prems show ?thesis by auto
    next
      case None
      obtain res' evs' where rest: "fetch_retries k http (Suc i) = (res', evs')"
        by (cases "fetch_retries k http (Suc i)")
      from Suc.IH [OF rest] have "Sleep \<notin> set evs'" .
      with None Inr rest Suc.prems show ?thesis by auto
    qed
  qed
qed

text \<open>The body sleeps at most once, as its last step.\<close>

lemma loop_body_events:
  assumes "loop_body k rd s = (x, s', evs)"
  shows "(\<exists>pre. Sleep \<notin> set pre \<and> (evs = pre \<or> evs = pre @ [Sleep]))"
proof -
  obtain res fe where f: "fetch_retries k (inference_http rd) 0 = (res, fe)"
    by (cases "fetch_retries k (inference_http rd) 0")
  from fetch_retries_no_sleep [OF f] have ns: "Sleep \<notin> set fe" .
  show ?thesis
  proof (cases "topic_active rd \<and> topic_nonce rd > 0 \<and> topic_nonce rd > latest_used_nonce s")
    case False
    with assms have "evs = [IsTopicActive] \<or> evs = [IsTopicActive, GetTopicNonce] @ [Sleep]"
      by (auto simp: loop_body_def Let_def split: if_splits)
    then show ?thesis
    proof
      assume "evs = [IsTopicActive]"
      then have "Sleep \<notin> set [IsTopicActive] \<and> (evs = [IsTopicActive] \<or> evs = [IsTopicActive] @ [Sleep])"
        by simp
      then show ?thesis by blast
    next
      assume "evs = [IsTopicActive, GetTopicNonce] @ [Sleep]"
      then have "Sleep \<notin> set [IsTopicActive, GetTopicNonce]
                 \<and> (evs = [IsTopicActive, GetTopicNonce] \<or> evs = [IsTopicActive, GetTopicNonce] @ [Sleep])"
        by simp
      then show ?thesis by blast
    qed
  next
    case True
    with assms f have
      "evs = [IsTopicActive, GetTopicNonce] @ fe
       \<or> evs = ([IsTopicActive, GetTopicNonce] @ fe) @ [Sleep]
       \<or> (\<exists>v. evs = [IsTopicActive, GetTopicNonce] @ fe @ [SubmitInference v (topic_nonce rd)])
       \<or> (\<exists>v. evs = ([IsTopicActive, GetTopicNonce] @ fe @ [SubmitInference v (topic_nonce rd)]) @ [Sleep])"
      by (auto simp: loop_body_def Let_def split: sum.splits option.splits result.splits)
    then show ?thesis
    proof (elim disjE exE)
      assume e: "evs = [IsTopicActive, GetTopicNonce] @ fe"
      have "Sleep \<notin> set ([IsTopicActive, GetTopicNonce] @ fe)" using ns by simp
      with e show ?thesis by blast
    next
      assume e: "evs = ([IsTopicActive, GetTopicNonce] @ fe) @ [Sleep]"
      have "Sleep \<notin> set ([IsTopicActive, GetTopicNonce] @ fe)" using ns by simp
      with e show ?thesis by blast
    next
      fix v assume e: "evs = [IsTopicActive, GetTopicNonce] @ fe @ [SubmitInference v (topic_nonce rd)]"
      have "Sleep \<notin> set ([IsTopicActive, GetTopicNonce] @ fe @ [SubmitInference v (topic_nonce rd)])"
        using ns by simp
      with e show ?thesis by blast
    next
      fix v assume e: "evs = ([IsTopicActive, GetTopicNonce] @ fe @ [SubmitInference v (topic_nonce rd)]) @ [Sleep]"
      have "Sleep \<notin> set ([IsTopicActive, GetTopicNonce] @ fe @ [SubmitInference v (topic_nonce rd)])"
        using ns by simp
      with e show ?thesis by blast
    qed
  qed
qed

lemma loop_body_raised_no_sleep:
  assumes "loop_body k rd s = (Some e, s', evs)"
  shows "Sleep \<notin> set evs"
proof -
  obtain res fe where f: "fetch_retries k (inference_http rd) 0 = (res, fe)"
    by (cases "fetch_retries k (inference_http rd) 0")
  from fetch_retries_no_sleep [OF f] have "Sleep \<notin> set fe" .
  with assms f show ?thesis
    by (auto simp: loop_body_def Let_def split: if_splits sum.splits option.splits result.splits)
qed

lemma sleep_then_check_no_sleep:
  "Sleep \<notin> set pre \<Longrightarrow> sleep_then_check (pre @ e # es) = sleep_then_check (e # es)"
proof (induction pre)
  case Nil
  show ?case by simp
next
  case (Cons a pre)
  then show ?case by (cases pre) auto
qed

lemma sleep_then_check_no_sleep_end:
  "Sleep \<notin> set pre \<Longrightarrow> sleep_then_check pre"
proof (induction pre rule: sleep_then_check.induct)
  case 1
  show ?case by simp
next
  case (2 e)
  then show ?case by simp
next
  case (3 e e' es)
  then show ?case by auto
qed

lemma run_loop_starts_with_check:
  "run_loop fuel k sr rounds j s = Some (x, s', evs) \<Longrightarrow> \<exists>b es. evs = IsStopSet b # es"
  by (cases fuel) (auto split: if_splits prod.splits option.splits)

lemma run_loop_ends_with_close:
  "run_loop fuel k sr rounds j s = Some (x, s', evs) \<Longrightarrow> \<exists>es. evs = es @ [CloseClient]"
proof (induction fuel arbitrary: j s x s' evs)
  case 0
  then show ?case by (auto split: if_splits)
next
  case (Suc fuel)
  show ?case
  proof (cases "stop_event s \<or> sr j")
    case True
    with Suc.prems show ?thesis by auto
  next
    case False
    obtain y t bevs where b: "loop_body k (rounds j) s = (y, t, bevs)"
      by (cases "loop_body k (rounds j) s")
    show ?thesis
    proof (cases y)
      case (Some e)
      with False b Suc.prems have "evs = (IsStopSet False # bevs) @ [CloseClient]" by auto
      then show ?thesis by blast
    next
      case None
      with False b Suc.prems obtain evs' where
        r: "run_loop fuel k sr rounds (Suc j) t = Some (x, s', evs')"
        and e: "evs = IsStopSet False # bevs @ evs'"
        by (auto split: option.splits)
      from Suc.IH [OF r] obtain es where "evs' = es @ [CloseClient]" by blast
      with e have "evs = (IsStopSet False # bevs @ es) @ [CloseClient]" by simp
      then show ?thesis by blast
    qed
  qed
qed

lemma run_loop_sleep_then_check:
  "run_loop fuel k sr rounds j s = Some (x, s', evs) \<Longrightarrow> sleep_then_check evs"
proof (induction fuel arbitrary: j s x s' evs)
  case 0
  then show ?case by (auto split: if_splits)
next
  case (Suc fuel)
  show ?case
  proof (cases "stop_event s \<or> sr j")
    case True
    with Suc.prems show ?thesis by auto
  next
    case False
    obtain y t bevs where b: "loop_body k (rounds j) s = (y, t, bevs)"
      by (cases "loop_body k (rounds j) s")
    from loop_body_events [OF b] obtain pre where
      pre: "Sleep \<notin> set pre" and shape: "bevs = pre \<or> bevs = pre @ [Sleep]" by blast
    show ?thesis
    proof (cases y)
      case (Some e)
      with False b Suc.prems have e: "evs = IsStopSet False # bevs @ [CloseClient]" by auto
      from b Some have "Sleep \<notin> set bevs" by (auto dest: loop_body_raised_no_sleep)
      then have "Sleep \<notin> set evs" unfolding e by simp
      then show ?thesis by (rule sleep_then_check_no_sleep_end)
    next
      case None
      with False b Suc.prems obtain evs' where
        r: "run_loop fuel k sr rounds (Suc j) t = Some (x, s', evs')"
        and e: "evs = IsStopSet False # bevs @ evs'"
        by (auto split: option.splits)
      from Suc.IH [OF r] have ih: "sleep_then_check evs'" .
      from run_loop_starts_with_check [OF r] obtain c es where c: "evs' = IsStopSet c # es" by blast
      have ns: "Sleep \<notin> set (IsStopSet False # pre)" using pre by simp
      from shape show ?thesis
      proof
        assume "bevs = pre"
        with e c have ev: "evs = (IsStopSet False # pre) @ IsStopSet c # es" by simp
        from ih c show ?thesis unfolding ev by (simp only: sleep_then_check_no_sleep [OF ns])
      next
        assume "bevs = pre @ [Sleep]"
        with e c have ev: "evs = (IsStopSet False # pre) @ Sleep # IsStopSet c # es" by simp
        from ih c have "sleep_then_check (Sleep # IsStopSet c # es)" by simp
        then show ?thesis unfolding ev by (simp only: sleep_then_check_no_sleep [OF ns])
      qed
    qed
  qed
qed

lemma run_loop_stopped:
  "stop_event s \<or> sr j \<Longrightarrow> run_loop fuel k sr rounds j s = Some (None, s, [IsStopSet True, CloseClient])"
  by (cases fuel) auto

text \<open>
  Claim C7. The loop condition is the one place where the worker reads the stop event.
  Every finished run starts with that check, and every sleep of the polling loop is
  followed at once by it: each sleep lies between the check that opened its iteration
  and the check that follows it. When the event is not set at the start of an
  iteration that ends with its sleep, and is set by the time the sleep is over, the
  worker ends at the check after that sleep: the only events after the sleep are the
  check and the closing of the client. Whenever the check finds the event set, the run
  ends with those two events, neither of which is a request.
\<close>

theorem stop_during_sleep:
  "(run_loop fuel k sr rounds j s = Some (x, t, evs) \<longrightarrow>
      (\<exists>b es. evs = IsStopSet b # es) \<and> sleep_then_check evs)
   \<and> (\<not> stop_event s \<and> \<not> sr j \<and> loop_body k (rounds j) s = (None, s', bevs @ [Sleep]) \<and> sr (Suc j) \<longrightarrow>
        run_loop (Suc fuel) k sr rounds j s =
          Some (None, s', IsStopSet False # bevs @ [Sleep, IsStopSet True, CloseClient])
        \<and> filter is_request [IsStopSet True, CloseClient] = [])
   \<and> (stop_event s \<or> sr j \<longrightarrow>
        run_loop fuel k sr rounds j s = Some (None, s, [IsStopSet True, CloseClient]))"
proof (intro conjI impI)
  assume r: "run_loop fuel k sr rounds j s = Some (x, t, evs)"
  show "\<exists>b es. evs = IsStopSet b # es" by (rule run_loop_starts_with_check [OF r])
  show "sleep_then_check evs" by (rule run_loop_sleep_then_check [OF r])
next
  assume a: "\<not> stop_event s \<and> \<not> sr j \<and> loop_body k (rounds j) s = (None, s', bevs @ [Sleep]) \<and> sr (Suc j)"
  then have "run_loop fuel k sr rounds (Suc j) s' = Some (None, s', [IsStopSet True, CloseClient])"
    by (simp add: run_loop_stopped)
  with a show "run_loop (Suc fuel) k sr rounds j s =
          Some (None, s', IsStopSet False # bevs @ [Sleep, IsStopSet True, CloseClient])"
    by simp
  show "filter is_request [IsStopSet True, CloseClient] = []" by simp
next
  assume "stop_event s \<or> sr j"
  then show "run_loop fuel k sr rounds j s = Some (None, s, [IsStopSet True, CloseClient])"
    by (rule run_loop_stopped)
qed

text \<open>
  A worker at nonce 100 on a topic whose nonce is 101 in the first round; the main
  thread calls \<open>stop()\<close> during the sleep of that round.
\<close>

theorem stop_during_sleep_witness:
  "run_loop 1 5 (\<lambda>j. 0 < j) (\<lambda>j. round_value 101 (Returned True)) 0 worker_at_100 =
     Some (None, worker_at_100\<lparr>latest_used_nonce := 101\<rparr>,
           [IsStopSet False, IsTopicActive, GetTopicNonce, FetchInference,
            SubmitInference (5 / 2) 101, Sleep, IsStopSet True, CloseClient])
   \<and> sleep_then_check
        [IsStopSet False, IsTopicActive, GetTopicNonce, FetchInference,
         SubmitInference (5 / 2) 101, Sleep, IsStopSet True, CloseClient]
   \<and> run_loop 0 5 (\<lambda>j. 0 < j) (\<lambda>j. round_value 101 (Returned True)) 1
        (worker_at_100\<lparr>latest_used_nonce := 101\<rparr>) =
     Some (None, worker_at_100\<lparr>latest_used_nonce := 101\<rparr>, [IsStopSet True, CloseClient])"
proof -
  let ?sr = "\<lambda>j::nat. 0 < j"
  let ?rounds = "\<lambda>j::nat. round_value 101 (Returned True)"
  let ?s' = "worker_at_100\<lparr>latest_used_nonce := 101\<rparr>"
  let ?bevs = "[IsTopicActive, GetTopicNonce, FetchInference, SubmitInference (5 / 2) 101]"
  let ?evs = "IsStopSet False # ?bevs @ [Sleep, IsStopSet True, CloseClient]"
  have b: "loop_body 5 (?rounds 0) worker_at_100 = (None, ?s', ?bevs @ [Sleep])"
    by (simp add: loop_body_def round_value_def worker_at_100_def fetch_inference_def eval_nat_numeral)
  have h: "\<not> stop_event worker_at_100 \<and> \<not> ?sr 0 \<and> ?sr (Suc 0)"
    by (simp add: worker_at_100_def)
  note t1 = stop_during_sleep [of 0 5 ?sr ?rounds 0 worker_at_100 None ?s' ?evs ?s' ?bevs]
  note t2 = stop_during_sleep [of 1 5 ?sr ?rounds 0 worker_at_100 None ?s' ?evs ?s' ?bevs]
  note t3 = stop_during_sleep [of 0 5 ?sr ?rounds 1 ?s' None ?s' ?evs ?s' ?bevs]
  from t1 b h have r: "run_loop 1 5 ?sr ?rounds 0 worker_at_100 = Some (None, ?s', ?evs)"
    by simp
  with t2 have "sleep_then_check ?evs" by blast
  moreover from t3 have "run_loop 0 5 ?sr ?rounds 1 ?s' = Some (None, ?s', [IsStopSet True, CloseClient])"
    by simp
  ultimately show ?thesis using r by simp
qed

text \<open>
  Claim C8, as amended. On an active topic with a new nonce, when each of the \<open>k\<close>
  answers of the endpoint is a transport error or has status 403, 429, 500 or 503, the
  iteration fetches \<open>k\<close> times, sleeping after each failure, submits nothing, changes
  nothing in the worker, raises nothing, and sleeps; the worker then goes on with the
  next iteration.
\<close>

theorem unavailable_fetch_skips_round:
  assumes "topic_active (rounds j)" and "0 < topic_nonce (rounds j)"
    and "latest_used_nonce s < topic_nonce (rounds j)"
    and "\<forall>i<k. unavailable (inference_http (rounds j) i)"
    and "\<not> stop_event s" and "\<not> sr j"
  shows "loop_body k (rounds j) s =
           (None, s, [IsTopicActive, GetTopicNonce]
                       @ concat (replicate k [FetchInference, RetrySleep]) @ [Sleep])
       \<and> run_loop (Suc fuel) k sr rounds j s =
           (case run_loop fuel k sr rounds (Suc j) s of
              None \<Rightarrow> None
            | Some (x, s'', evs') \<Rightarrow>
                Some (x, s'', IsStopSet False # ([IsTopicActive, GetTopicNonce]
                       @ concat (replicate k [FetchInference, RetrySleep]) @ [Sleep]) @ evs'))"
proof -
  have "fetch_retries k (inference_http (rounds j)) 0
          = (Inr None, concat (replicate k [FetchInference, RetrySleep]))"
    by (rule fetch_retries_unavailable) (simp add: assms(4))
  with assms(1-3) have b: "loop_body k (rounds j) s =
           (None, s, [IsTopicActive, GetTopicNonce]
                       @ concat (replicate k [FetchInference, RetrySleep]) @ [Sleep])"
    by (simp add: loop_body_def Let_def)
  with assms(5,6) show ?thesis by (simp split: option.splits)
qed

theorem unavailable_fetch_skips_round_witness:
  "loop_body 2 (round_unavailable 101) worker_at_100 =
     (None, worker_at_100,
      [IsTopicActive, GetTopicNonce, FetchInference, RetrySleep, FetchInference, RetrySleep, Sleep])
   \<and> run_loop 1 2 (\<lambda>j. 0 < j) (\<lambda>j. round_unavailable 101) 0 worker_at_100 =
     Some (None, worker_at_100,
           [IsStopSet False, IsTopicActive, GetTopicNonce, FetchInference, RetrySleep,
            FetchInference, RetrySleep, Sleep, IsStopSet True, CloseClient])"
proof -
  have "loop_body 2 (round_unavailable 101) worker_at_100 =
           (None, worker_at_100, [IsTopicActive, GetTopicNonce]
                       @ concat (replicate 2 [FetchInference, RetrySleep]) @ [Sleep])
       \<and> run_loop (Suc 0) 2 (\<lambda>j. 0 < j) (\<lambda>j. round_unavailable 101) 0 worker_at_100 =
           (case run_loop 0 2 (\<lambda>j. 0 < j) (\<lambda>j. round_unavailable 101) (Suc 0) worker_at_100 of
              None \<Rightarrow> None
            | Some (x, s'', evs') \<Rightarrow>
                Some (x, s'', IsStopSet False # ([IsTopicActive, GetTopicNonce]
                       @ concat (replicate 2 [FetchInference, RetrySleep]) @ [Sleep]) @ evs'))"
    by (rule unavailable_fetch_skips_round)
       (simp_all add: round_unavailable_def worker_at_100_def)
  then show ?thesis by (simp add: eval_nat_numeral)
qed

text \<open>
  Claim C8 as stated fails twice. A body that is not a number under status 200 raises
  \<open>ValueError\<close>, which ends the loop: the worker stops although nobody asked it to.
  A number under status 404 is taken as the inference value and submitted.
\<close>

theorem fetch_parse_failure_counterexample:
  "fetch_inference (Response 200 None) = Inl ValueError
   \<and> run_loop 3 5 (\<lambda>j. False) (\<lambda>j. round_garbage 101) 0 worker_at_100 =
       Some (Some ValueError, worker_at_100,
             [IsStopSet False, IsTopicActive, GetTopicNonce, FetchInference, CloseClient])
   \<and> fetch_inference (Response 404 (Some (5 / 2))) = Inr (Some (5 / 2))
   \<and> loop_body 5 (round_not_found 101) worker_at_100 =
       (None, worker_at_100\<lparr>latest_used_nonce := 101\<rparr>,
        [IsTopicActive, GetTopicNonce, FetchInference, SubmitInference (5 / 2) 101, Sleep])"
  by (simp add: fetch_inference_def loop_body_def round_garbage_def round_not_found_def
        worker_at_100_def eval_nat_numeral)

section \<open>Properties of the start\<close>

text \<open>
  Claim C10. A wallet is initialized only if both requests of the start were answered
  and the balance is not 0; its account number and sequence are then the reported
  ones, which are not negative. A balance of 0, or a failed balance request, leaves
  the wallet uninitialized whatever the account request gave; any other balance with
  an answered account request initializes it. With an uninitialized wallet \<open>main\<close>
  exits with code -1 and has started no worker.
\<close>

theorem zero_balance_not_initialized:
  "(is_initialized (Wallet_init adj acc bal) \<longrightarrow>
      0 \<le> account_number (Wallet_init adj acc bal)
      \<and> 0 \<le> sequence (Wallet_init adj acc bal)
      \<and> balance (Wallet_init adj acc bal) \<noteq> 0
      \<and> (\<exists>n s amount. acc = AccountInfo n s \<and> bal = Balance amount
            \<and> account_number (Wallet_init adj acc bal) = int n
            \<and> sequence (Wallet_init adj acc bal) = int s
            \<and> balance (Wallet_init adj acc bal) = amount))
   \<and> (bal = BalanceUnavailable \<or> bal = Balance 0 \<longrightarrow> \<not> is_initialized (Wallet_init adj acc bal))
   \<and> (acc = AccountInfo n s \<and> bal = Balance amount \<and> amount \<noteq> 0 \<longrightarrow>
        is_initialized (Wallet_init adj acc bal))
   \<and> (\<not> is_initialized (Wallet_init adj acc bal) \<longrightarrow>
        main_with_wallet (Wallet_init adj acc bal) topics = (Some (-1), []))"
  by (cases acc; cases bal)
     (auto simp: is_initialized_def Wallet_init_def fetch_wallet_details_def main_with_wallet_def Let_def)

theorem zero_balance_not_initialized_witness:
  "\<not> is_initialized (Wallet_init (3 / 2) (AccountInfo 12 3) (Balance 0))
   \<and> main_with_wallet (Wallet_init (3 / 2) (AccountInfo 12 3) (Balance 0))
        [(Some 1, Some ''http://localhost:8000/inference'')] = (Some (-1), [])
   \<and> is_initialized (Wallet_init (3 / 2) (AccountInfo 12 3) (Balance 500))
   \<and> balance (Wallet_init (3 / 2) (AccountInfo 12 3) (Balance 500)) \<noteq> 0
   \<and> main_with_wallet (Wallet_init (3 / 2) (AccountInfo 12 3) (Balance 500))
        [(Some 1, Some ''http://localhost:8000/inference'')] = (None, [1])"
proof -
  note t1 = zero_balance_not_initialized
      [of "3 / 2" "AccountInfo 12 3" "Balance 0" 12 3 0 "[(Some 1, Some ''http://localhost:8000/inference'')]"]
  note t2 = zero_balance_not_initialized
      [of "3 / 2" "AccountInfo 12 3" "Balance 500" 12 3 500 "[(Some 1, Some ''http://localhost:8000/inference'')]"]
  from t1 have a: "\<not> is_initialized (Wallet_init (3 / 2) (AccountInfo 12 3) (Balance 0))" by simp
  with t1 have b: "main_with_wallet (Wallet_init (3 / 2) (AccountInfo 12 3) (Balance 0))
        [(Some 1, Some ''http://localhost:8000/inference'')] = (Some (-1), [])" by blast
  from t2 have c: "is_initialized (Wallet_init (3 / 2) (AccountInfo 12 3) (Balance 500))" by simp
  with t2 have d: "balance (Wallet_init (3 / 2) (AccountInfo 12 3) (Balance 500)) \<noteq> 0" by blast
  have e: "main_with_wallet (Wallet_init (3 / 2) (AccountInfo 12 3) (Balance 500))
        [(Some 1, Some ''http://localhost:8000/inference'')] = (None, [1])"
    by (simp add: main_with_wallet_def is_initialized_def Wallet_init_def fetch_wallet_details_def)
  from a b c d e show ?thesis by simp
qed

end
